theory Spec2Isabelle
  imports Complex_Main
begin

section \<open>JavaScript values\<close>

text \<open>
  The session event pipeline of \<^verbatim>\<open>frontend/assets/js/analytics.js\<close> (class
  \<^verbatim>\<open>AnalyticsManager\<close>) is embedded below. JavaScript numbers are modelled with
  their three non-finite values; a finite number is an exact rational, so the
  rounding error of IEEE doubles and the sign of zero are left out of the model.
\<close>

datatype jsnum = Fin rat | PosInf | NegInf | NaN

text \<open>
  A JavaScript value. \<open>JIso ms\<close> stands for the string
  \<^verbatim>\<open>new Date(ms).toISOString()\<close> and \<open>JCell gx gy\<close> for the template string
  \<^verbatim>\<open>`${gridX},${gridY}`\<close>: both are strings whose text is fixed by the numbers
  they are rendered from, and the model keeps the numbers. An object is the list
  of its own properties in insertion order.
\<close>

datatype jsval =
    JUndefined
  | JNull
  | JBool bool
  | JNum jsnum
  | JStr string
  | JIso int
  | JCell int int
  | JObj "(string \<times> jsval) list"
  | JArr "jsval list"

type_synonym jsobj = "(string \<times> jsval) list"

text \<open>Assignment \<^verbatim>\<open>obj[k] = v\<close>: an existing property keeps its place.\<close>

fun set_prop :: "('k \<times> 'v) list \<Rightarrow> 'k \<Rightarrow> 'v \<Rightarrow> ('k \<times> 'v) list" where
  "set_prop [] k v = [(k, v)]"
| "set_prop ((k', v') # ps) k v =
     (if k' = k then (k, v) # ps else (k', v') # set_prop ps k v)"

text \<open>Object spread \<^verbatim>\<open>{...obj, ...src}\<close>: the properties of \<open>src\<close> are assigned in order.\<close>

definition spread :: "jsobj \<Rightarrow> jsobj \<Rightarrow> jsobj" where
  "spread obj src = fold (\<lambda>(k, v) acc. set_prop acc k v) src obj"

text \<open>Property read \<^verbatim>\<open>obj.k\<close>: a missing property reads as \<^verbatim>\<open>undefined\<close>.\<close>

definition get_prop :: "jsobj \<Rightarrow> string \<Rightarrow> jsval" where
  "get_prop obj k = (case map_of obj k of None \<Rightarrow> JUndefined | Some v \<Rightarrow> v)"

subsection \<open>Arithmetic on JavaScript numbers\<close>

fun js_div :: "jsnum \<Rightarrow> jsnum \<Rightarrow> jsnum" where
  "js_div NaN _ = NaN"
| "js_div _ NaN = NaN"
| "js_div (Fin a) (Fin b) =
     (if b = 0 then (if a = 0 then NaN else if 0 < a then PosInf else NegInf)
      else Fin (a / b))"
| "js_div (Fin a) _ = Fin 0"
| "js_div PosInf (Fin b) = (if 0 \<le> b then PosInf else NegInf)"
| "js_div NegInf (Fin b) = (if 0 \<le> b then NegInf else PosInf)"
| "js_div _ _ = NaN"

fun js_mul :: "jsnum \<Rightarrow> jsnum \<Rightarrow> jsnum" where
  "js_mul NaN _ = NaN"
| "js_mul _ NaN = NaN"
| "js_mul (Fin a) (Fin b) = Fin (a * b)"
| "js_mul (Fin a) PosInf = (if a = 0 then NaN else if 0 < a then PosInf else NegInf)"
| "js_mul (Fin a) NegInf = (if a = 0 then NaN else if 0 < a then NegInf else PosInf)"
| "js_mul PosInf (Fin b) = (if b = 0 then NaN else if 0 < b then PosInf else NegInf)"
| "js_mul NegInf (Fin b) = (if b = 0 then NaN else if 0 < b then NegInf else PosInf)"
| "js_mul PosInf PosInf = PosInf"
| "js_mul NegInf NegInf = PosInf"
| "js_mul _ _ = NegInf"

fun js_add :: "jsnum \<Rightarrow> jsnum \<Rightarrow> jsnum" where
  "js_add NaN _ = NaN"
| "js_add _ NaN = NaN"
| "js_add (Fin a) (Fin b) = Fin (a + b)"
| "js_add (Fin a) y = y"
| "js_add x (Fin b) = x"
| "js_add PosInf PosInf = PosInf"
| "js_add NegInf NegInf = NegInf"
| "js_add _ _ = NaN"

text \<open>\<^verbatim>\<open>Math.min(x, y)\<close>: \<^verbatim>\<open>NaN\<close> if either argument is.\<close>

fun js_min :: "jsnum \<Rightarrow> jsnum \<Rightarrow> jsnum" where
  "js_min NaN _ = NaN"
| "js_min _ NaN = NaN"
| "js_min NegInf _ = NegInf"
| "js_min _ NegInf = NegInf"
| "js_min PosInf y = y"
| "js_min x PosInf = x"
| "js_min (Fin a) (Fin b) = Fin (min a b)"

text \<open>\<^verbatim>\<open>Math.round(x)\<close>: the nearest integer, a tie going up.\<close>

fun js_round :: "jsnum \<Rightarrow> jsnum" where
  "js_round (Fin a) = Fin (of_int \<lfloor>a + 1 / 2\<rfloor>)"
| "js_round x = x"

text \<open>The comparison \<^verbatim>\<open>x >= y\<close>: false as soon as one side is \<^verbatim>\<open>NaN\<close>.\<close>

fun js_ge :: "jsnum \<Rightarrow> jsnum \<Rightarrow> bool" where
  "js_ge NaN _ = False"
| "js_ge _ NaN = False"
| "js_ge PosInf _ = True"
| "js_ge _ NegInf = True"
| "js_ge (Fin a) (Fin b) = (b \<le> a)"
| "js_ge _ _ = False"

section \<open>The session and its surroundings\<close>

text \<open>
  What a handler reads from the browser while it runs: the clock
  (\<^verbatim>\<open>Date.now()\<close>, one reading per handler run), \<^verbatim>\<open>window.location.href\<close>,
  whether the global \<^verbatim>\<open>gtag\<close> exists, and the \<^verbatim>\<open>user_info\<close> block that
  \<^verbatim>\<open>sendAnalytics\<close> builds from \<^verbatim>\<open>navigator\<close>, \<^verbatim>\<open>Intl\<close> and \<^verbatim>\<open>screen\<close>.
\<close>

record env =
  now :: int
  href :: string
  gtag_defined :: bool
  user_info :: jsobj

text \<open>The body of one POST to \<^verbatim>\<open>/api/analytics/track\<close>, before serialisation.\<close>

record request =
  req_session_id :: string
  req_events :: "jsobj list"
  req_user_info :: jsobj

text \<open>The lines the class writes to the console.\<close>

datatype console_entry =
    AnalyticsEvent string jsobj
  | Sent nat
  | FailedToSend
  | Initialized string

text \<open>How the promise returned by \<^verbatim>\<open>fetch\<close> settles.\<close>

datatype outcome = Response bool | Rejected

text \<open>
  The fields of \<^verbatim>\<open>AnalyticsManager\<close> (\<open>scrollMilestones\<close> and \<open>heatmapData\<close> are
  undefined until first written), the closure variable \<open>inactivityTimeout\<close> of
  \<^verbatim>\<open>startSessionTracking\<close> (the due time of the armed timeout, if any), and the
  effects on the outside: the \<^verbatim>\<open>fetch\<close> calls made so far, the calls whose
  \<^verbatim>\<open>await\<close> has not resumed yet (by position in \<open>requests\<close>), the calls to
  \<^verbatim>\<open>gtag\<close> and the console.
\<close>

record manager =
  sessionId :: string
  startTime :: int
  events :: "jsobj list"
  isActive :: bool
  lastActivity :: int
  scrollMilestones :: "nat set option"
  heatmapData :: "((int \<times> int) \<times> nat) list option"
  inactivityTimeout :: "int option"
  requests :: "request list"
  inflight :: "nat list"
  gtag_calls :: "(string \<times> jsobj) list"
  console :: "console_entry list"

subsection \<open>Batch dispatcher\<close>

text \<open>
  \<^verbatim>\<open>sendAnalytics\<close> up to its \<^verbatim>\<open>await\<close>: nothing on an empty queue, otherwise one
  \<^verbatim>\<open>fetch\<close> whose body holds the queue as it is at the call. The values of the
  model are finite trees, so \<^verbatim>\<open>JSON.stringify\<close> does not throw on them.
\<close>

definition sendAnalytics :: "env \<Rightarrow> manager \<Rightarrow> manager" where
  "sendAnalytics e s =
     (if length (events s) = 0 then s
      else s\<lparr>requests := requests s @
                 [\<lparr>req_session_id = sessionId s, req_events = events s,
                   req_user_info = user_info e\<rparr>],
              inflight := inflight s @ [length (requests s)]\<rparr>)"

text \<open>
  \<^verbatim>\<open>sendAnalytics\<close> after its \<^verbatim>\<open>await\<close>, for the call that made request \<open>i\<close>: a
  response with \<^verbatim>\<open>response.ok\<close> logs the current queue length and replaces the
  queue by the empty array; any other response does nothing; a rejected promise
  is caught and logged.
\<close>

definition resume :: "nat \<Rightarrow> outcome \<Rightarrow> manager \<Rightarrow> manager" where
  "resume i out s =
     (if i \<notin> set (inflight s) then s
      else let s1 = s\<lparr>inflight := removeAll i (inflight s)\<rparr> in
        (case out of
           Response ok \<Rightarrow>
             (if ok then s1\<lparr>console := console s1 @ [Sent (length (events s1))],
                            events := []\<rparr>
              else s1)
         | Rejected \<Rightarrow> s1\<lparr>console := console s1 @ [FailedToSend]\<rparr>))"

subsection \<open>Event model\<close>

text \<open>The envelope of \<^verbatim>\<open>trackEvent\<close> with the payload spread over it.\<close>

definition make_event :: "env \<Rightarrow> manager \<Rightarrow> string \<Rightarrow> jsobj \<Rightarrow> jsobj" where
  "make_event e s eventName eventData =
     spread [(''event'', JStr eventName),
             (''session_id'', JStr (sessionId s)),
             (''timestamp'', JIso (now e)),
             (''page_url'', JStr (href e))] eventData"

definition trackEvent :: "env \<Rightarrow> string \<Rightarrow> jsobj \<Rightarrow> manager \<Rightarrow> manager" where
  "trackEvent e eventName eventData s =
     (let s1 = s\<lparr>events := events s @ [make_event e s eventName eventData]\<rparr>;
          s2 = (if length (events s1) \<ge> 10 then sendAnalytics e s1 else s1);
          s3 = (if gtag_defined e
                then s2\<lparr>gtag_calls := gtag_calls s2 @ [(eventName, eventData)]\<rparr>
                else s2)
      in s3\<lparr>console := console s3 @ [AnalyticsEvent eventName eventData]\<rparr>)"

text \<open>
  The exported \<^verbatim>\<open>trackAnalyticsEvent\<close>: the global \<^verbatim>\<open>analytics\<close> is \<^verbatim>\<open>null\<close> while
  analytics is disabled.
\<close>

definition trackAnalyticsEvent ::
    "env \<Rightarrow> string \<Rightarrow> jsobj \<Rightarrow> manager option \<Rightarrow> manager option" where
  "trackAnalyticsEvent e eventName eventData analytics =
     (case analytics of None \<Rightarrow> None
      | Some s \<Rightarrow> Some (trackEvent e eventName eventData s))"

text \<open>A run of \<^verbatim>\<open>trackEvent\<close> calls, each with the browser state it ran in.\<close>

fun record_all :: "(env \<times> string \<times> jsobj) list \<Rightarrow> manager \<Rightarrow> manager" where
  "record_all [] s = s"
| "record_all ((e, n, d) # cs) s = record_all cs (trackEvent e n d s)"

subsection \<open>Capture layer\<close>

text \<open>
  \<^verbatim>\<open>trackScrollDepth\<close>, run by the scroll listener 250 ms after the last scroll
  event, on the readings \<^verbatim>\<open>window.scrollY\<close>,
  \<^verbatim>\<open>document.documentElement.scrollHeight\<close> and \<^verbatim>\<open>window.innerHeight\<close>.
\<close>

definition scrollPercent :: "rat \<Rightarrow> int \<Rightarrow> int \<Rightarrow> jsnum" where
  "scrollPercent scrollY scrollHeight innerHeight =
     js_round (js_mul (js_div (Fin scrollY) (Fin (of_int (scrollHeight - innerHeight))))
                      (Fin 100))"

definition milestones :: "nat list" where
  "milestones = [25, 50, 75, 100]"

text \<open>\<^verbatim>\<open>this.scrollMilestones?.[milestone]\<close>, as a condition.\<close>

definition reached :: "manager \<Rightarrow> nat \<Rightarrow> bool" where
  "reached s milestone =
     (case scrollMilestones s of None \<Rightarrow> False | Some ms \<Rightarrow> milestone \<in> ms)"

text \<open>The body of the \<^verbatim>\<open>forEach\<close> over the milestones.\<close>

definition check_milestone :: "env \<Rightarrow> jsnum \<Rightarrow> rat \<Rightarrow> nat \<Rightarrow> manager \<Rightarrow> manager" where
  "check_milestone e pct scrollY milestone s =
     (if js_ge pct (Fin (of_nat milestone)) \<and> \<not> reached s milestone
      then trackEvent e ''scroll_depth''
             [(''percentage'', JNum (Fin (of_nat milestone))),
              (''absolute_position'', JNum (Fin scrollY))]
             (s\<lparr>scrollMilestones :=
                  Some (insert milestone
                         (case scrollMilestones s of None \<Rightarrow> {} | Some ms \<Rightarrow> ms))\<rparr>)
      else s)"

definition trackScrollDepth :: "env \<Rightarrow> rat \<Rightarrow> int \<Rightarrow> int \<Rightarrow> manager \<Rightarrow> manager" where
  "trackScrollDepth e scrollY scrollHeight innerHeight s =
     fold (check_milestone e (scrollPercent scrollY scrollHeight innerHeight) scrollY)
          milestones s"




text \<open>The target of an input event: what the listener reads of it.\<close>

record element =
  el_tag :: string
  el_type :: string
  el_name :: string
  el_id :: string
  el_value :: string

text \<open>\<^verbatim>\<open>e.target.matches('input, textarea')\<close>, on the lower-case tag name.\<close>

definition matches_input_textarea :: "element \<Rightarrow> bool" where
  "matches_input_textarea el = (el_tag el = ''input'' \<or> el_tag el = ''textarea'')"

definition on_input :: "env \<Rightarrow> element \<Rightarrow> manager \<Rightarrow> manager" where
  "on_input e el s =
     (if matches_input_textarea el
      then trackEvent e ''form_interaction''
             [(''element_type'', JStr (el_type el)),
              (''element_name'', JStr (if el_name el \<noteq> [] then el_name el else el_id el)),
              (''has_value'', JBool (length (el_value el) > 0))] s
      else s)"


definition on_beforeunload :: "env \<Rightarrow> manager \<Rightarrow> manager" where
  "on_beforeunload e s =
     sendAnalytics e
       (trackEvent e ''page_unload''
          [(''total_time_spent'', JNum (Fin (of_int (now e - startTime s)))),
           (''total_events'', JNum (Fin (of_nat (length (events s)))))] s)"

subsection \<open>Session state\<close>



text \<open>
  \<^verbatim>\<open>resetInactivityTimer\<close>, the listener of mousedown, mousemove, keypress, scroll
  and touchstart: the pending timeout is cleared and a new one armed, due in five
  minutes.
\<close>

definition resetInactivityTimer :: "env \<Rightarrow> manager \<Rightarrow> manager" where
  "resetInactivityTimer e s =
     s\<lparr>isActive := True, inactivityTimeout := Some (now e + 5 * 60 * 1000)\<rparr>"



text \<open>
  \<^verbatim>\<open>calculateEngagementScore\<close>. The \<^verbatim>\<open>Set\<close> of target sections is counted on the
  values as the model has them (strings and the other primitives compare by
  value there as well).
\<close>

definition sections_visited :: "jsobj list \<Rightarrow> nat" where
  "sections_visited evs =
     length (remdups (map (\<lambda>ev. get_prop ev ''target_section'')
                          (filter (\<lambda>ev. get_prop ev ''event'' = JStr ''navigation'') evs)))"

definition calculateEngagementScore :: "env \<Rightarrow> manager \<Rightarrow> jsnum" where
  "calculateEngagementScore e s =
     (let timeSpent = Fin (of_int (now e - startTime s));
          eventsCount = Fin (of_nat (length (events s)));
          sectionsVisited = Fin (of_nat (sections_visited (events s)));
          score = Fin 0;
          score = js_add score (js_mul (js_min (js_div timeSpent (Fin (60 * 1000))) (Fin 10)) (Fin 10));
          score = js_add score (js_mul (js_min eventsCount (Fin 50)) (Fin 2));
          score = js_add score (js_mul sectionsVisited (Fin 20))
      in js_round score)"

subsection \<open>Construction\<close>

text \<open>The readings that only the \<^verbatim>\<open>page_load\<close> event carries.\<close>

record page =
  referrer :: string
  user_agent :: string
  screen_resolution :: string
  viewport :: string

text \<open>
  The constructor with \<^verbatim>\<open>init\<close>. The session id is the string that
  \<^verbatim>\<open>generateSessionId\<close> builds from the clock and \<^verbatim>\<open>Math.random()\<close>; it is taken
  as given.
\<close>

definition new_manager :: "env \<Rightarrow> string \<Rightarrow> page \<Rightarrow> manager" where
  "new_manager e sid pg =
     (let s0 = \<lparr>sessionId = sid, startTime = now e, events = [], isActive = True,
                lastActivity = now e, scrollMilestones = None, heatmapData = None,
                inactivityTimeout = None, requests = [], inflight = [],
                gtag_calls = [], console = []\<rparr>;
          s1 = trackEvent e ''page_load''
                 [(''url'', JStr (href e)),
                  (''referrer'', JStr (referrer pg)),
                  (''timestamp'', JIso (now e)),
                  (''user_agent'', JStr (user_agent pg)),
                  (''screen_resolution'', JStr (screen_resolution pg)),
                  (''viewport'', JStr (viewport pg))] s0;
          s2 = resetInactivityTimer e s1
      in s2\<lparr>console := console s2 @ [Initialized sid]\<rparr>)"

subsection \<open>A session as a run of tasks\<close>




section \<open>Vocabulary of the properties\<close>

text \<open>A browser state, a page and a fresh session to evaluate the model on.\<close>

definition sample_env :: env where
  "sample_env = \<lparr>now = 0, href = ''/index.html'', gtag_defined = False, user_info = []\<rparr>"

definition sample_page :: page where
  "sample_page = \<lparr>referrer = ''direct'', user_agent = ''UA'',
                   screen_resolution = ''1920x1080'', viewport = ''1280x720''\<rparr>"

definition sample_manager :: manager where
  "sample_manager = new_manager sample_env ''session_0_abc'' sample_page"

subsection \<open>Scroll depth\<close>









subsection \<open>Form fields\<close>

text \<open>A password field and a drop-down, as targets of an input event.\<close>

definition sample_field :: element where
  "sample_field = \<lparr>el_tag = ''input'', el_type = ''password'', el_name = ''pw'',
                    el_id = ''login-pw'', el_value = ''hunter2''\<rparr>"

definition sample_select :: element where
  "sample_select = \<lparr>el_tag = ''select'', el_type = ''select-one'', el_name = ''lang'',
                     el_id = ''lang'', el_value = ''en''\<rparr>"

subsection \<open>Inactivity\<close>












subsection \<open>Heatmap\<close>











subsection \<open>Queue and session\<close>

text \<open>
  The events a session has recorded so far are the calls of \<^verbatim>\<open>trackEvent\<close>, each
  with its console line; the queue \<open>events\<close> holds those recorded since the last
  flush that succeeded.
\<close>

definition is_recorded :: "console_entry \<Rightarrow> bool" where
  "is_recorded c = (case c of AnalyticsEvent n d \<Rightarrow> True | _ \<Rightarrow> False)"

definition events_recorded :: "manager \<Rightarrow> nat" where
  "events_recorded s = length (filter is_recorded (console s))"

text \<open>The distinct target sections of all the navigation events of the session.\<close>

definition sections_recorded :: "manager \<Rightarrow> nat" where
  "sections_recorded s =
     length (remdups (concat (map
       (\<lambda>c. case c of
              AnalyticsEvent n d \<Rightarrow>
                if n = ''navigation'' then [get_prop d ''target_section''] else []
            | _ \<Rightarrow> [])
       (console s))))"

text \<open>
  The engagement score as the specification words it:
  \<^verbatim>\<open>round(min(minutesElapsed,10)*10 + min(eventCount,50)*2 + distinctSectionsVisited*20)\<close>.
\<close>

definition score_formula :: "rat \<Rightarrow> nat \<Rightarrow> nat \<Rightarrow> int" where
  "score_formula minutesElapsed eventCount distinctSectionsVisited =
     \<lfloor>min minutesElapsed 10 * 10 + of_nat (min eventCount 50) * 2
        + of_nat distinctSectionsVisited * 20 + 1 / 2\<rfloor>"

definition minutes_elapsed :: "env \<Rightarrow> manager \<Rightarrow> rat" where
  "minutes_elapsed e s = of_int (now e - startTime s) / 60000"

text \<open>The score over everything the session recorded.\<close>

definition session_score :: "env \<Rightarrow> manager \<Rightarrow> jsnum" where
  "session_score e s =
     Fin (of_int (score_formula (minutes_elapsed e s) (events_recorded s) (sections_recorded s)))"

text \<open>
  Sample sessions. \<open>full_queue\<close>: nine clicks after the page load, so that the
  first request, with ten events, is on its way. \<open>flushed_session\<close>: that request
  succeeds and two more clicks follow. \<open>browsing_session\<close>: nineteen events after
  the page load, two of them navigation to different sections, and no answer
  from the collector yet. \<open>overlapped\<close>: a click on a navigation link is the
  tenth and eleventh event, each sent with its own request; the first request
  succeeds and the second fails.
\<close>

definition clicks :: "nat \<Rightarrow> (env \<times> string \<times> jsobj) list" where
  "clicks n = replicate n (sample_env, ''click'', [])"

definition full_queue :: manager where
  "full_queue = record_all (clicks 9) sample_manager"

definition flushed_session :: manager where
  "flushed_session = record_all (clicks 2) (resume 0 (Response True) full_queue)"

definition browsing_calls :: "(env \<times> string \<times> jsobj) list" where
  "browsing_calls =
     clicks 17 @
     [(sample_env, ''navigation'', [(''target_section'', JStr ''#about'')]),
      (sample_env, ''navigation'', [(''target_section'', JStr ''#projects'')])]"

definition browsing_session :: manager where
  "browsing_session = record_all browsing_calls sample_manager"

definition nav_event :: jsobj where
  "nav_event =
     [(''event'', JStr ''navigation''), (''session_id'', JStr ''session_0_abc''),
      (''timestamp'', JIso 0), (''page_url'', JStr ''/index.html''),
      (''target_section'', JStr ''#about'')]"

definition overlapped :: manager where
  "overlapped =
     resume 1 (Response False)
       (resume 0 (Response True)
          (trackEvent sample_env ''navigation'' [(''target_section'', JStr ''#about'')]
             full_queue))"

section \<open>Properties\<close>

subsection \<open>Objects\<close>

lemma map_of_set_prop: "map_of (set_prop ps k v) = (map_of ps)(k \<mapsto> v)"
  by (induction ps) auto

lemma map_of_spread:
  "distinct (map fst src) \<Longrightarrow> map_of (spread obj src) = map_of obj ++ map_of src"
proof (induction src arbitrary: obj)
  case Nil
  then show ?case by (simp add: spread_def)
next
  case (Cons p src)
  obtain k v where p: "p = (k, v)" by (cases p)
  from Cons.prems p have k: "k \<notin> dom (map_of src)" and d: "distinct (map fst src)"
    by (auto simp: dom_map_of_conv_image_fst)
  have "map_of (spread obj (p # src)) = map_of (spread (set_prop obj k v) src)"
    by (simp add: spread_def p)
  also have "\<dots> = (map_of obj)(k \<mapsto> v) ++ map_of src"
    using Cons.IH [OF d, of "set_prop obj k v"] by (simp only: map_of_set_prop)
  also have "\<dots> = map_of obj ++ map_of (p # src)"
    using k by (auto simp: p map_add_def fun_eq_iff split: option.splits)
  finally show ?case .
qed

lemma floor_rat_numeral:
  "\<lfloor>numeral a / numeral b :: rat\<rfloor> = numeral a div numeral b"
  "\<lfloor>1 / numeral b :: rat\<rfloor> = 1 div numeral b"
  "\<lfloor>- (numeral a / numeral b) :: rat\<rfloor> = - numeral a div numeral b"
  using floor_divide_of_int_eq [of "numeral a" "numeral b", where ?'a = rat]
        floor_divide_of_int_eq [of 1 "numeral b", where ?'a = rat]
        floor_divide_of_int_eq [of "- numeral a" "numeral b", where ?'a = rat]
  by simp_all

subsection \<open>What \<open>sendAnalytics\<close> and \<open>trackEvent\<close> change\<close>

lemma events_sendAnalytics: "events (sendAnalytics e s) = events s"
  by (simp add: sendAnalytics_def)

lemma console_sendAnalytics: "console (sendAnalytics e s) = console s"
  by (simp add: sendAnalytics_def)

lemma scrollMilestones_sendAnalytics: "scrollMilestones (sendAnalytics e s) = scrollMilestones s"
  by (simp add: sendAnalytics_def)

lemma events_trackEvent:
  "events (trackEvent e n d s) = events s @ [make_event e s n d]"
  by (simp add: trackEvent_def Let_def events_sendAnalytics)

lemma console_trackEvent: "console (trackEvent e n d s) = console s @ [AnalyticsEvent n d]"
  by (simp add: trackEvent_def Let_def console_sendAnalytics)

lemma requests_trackEvent:
  "requests (trackEvent e n d s) =
     (if 9 \<le> length (events s)
      then requests s @ [\<lparr>req_session_id = sessionId s,
                           req_events = events s @ [make_event e s n d],
                           req_user_info = user_info e\<rparr>]
      else requests s)"
  by (simp add: trackEvent_def Let_def sendAnalytics_def)

lemma inflight_trackEvent:
  "inflight (trackEvent e n d s) =
     (if 9 \<le> length (events s) then inflight s @ [length (requests s)] else inflight s)"
  by (simp add: trackEvent_def Let_def sendAnalytics_def)

lemma sessionId_trackEvent: "sessionId (trackEvent e n d s) = sessionId s"
  by (simp add: trackEvent_def Let_def sendAnalytics_def)

lemma startTime_trackEvent: "startTime (trackEvent e n d s) = startTime s"
  by (simp add: trackEvent_def Let_def sendAnalytics_def)

lemma scrollMilestones_trackEvent: "scrollMilestones (trackEvent e n d s) = scrollMilestones s"
  by (simp add: trackEvent_def Let_def scrollMilestones_sendAnalytics)

lemma heatmapData_trackEvent: "heatmapData (trackEvent e n d s) = heatmapData s"
  by (simp add: trackEvent_def Let_def sendAnalytics_def)

lemma isActive_trackEvent: "isActive (trackEvent e n d s) = isActive s"
  by (simp add: trackEvent_def Let_def sendAnalytics_def)


lemma record_all_append: "record_all (cs @ ds) s = record_all ds (record_all cs s)"
  by (induction cs s rule: record_all.induct) simp_all

lemma length_events_record_all:
  "length (events (record_all cs s)) = length (events s) + length cs"
  by (induction cs s rule: record_all.induct) (simp_all add: events_trackEvent)

lemma sessionId_record_all: "sessionId (record_all cs s) = sessionId s"
  by (induction cs s rule: record_all.induct) (simp_all add: sessionId_trackEvent)

lemma record_all_quiet:
  "length (events s) + length cs < 10 \<Longrightarrow>
   requests (record_all cs s) = requests s \<and> inflight (record_all cs s) = inflight s"
  by (induction cs s rule: record_all.induct)
     (simp_all add: events_trackEvent requests_trackEvent inflight_trackEvent)

text \<open>The fresh session holds its \<^verbatim>\<open>page_load\<close> event and has sent nothing.\<close>

lemma new_manager_fields:
  "length (events (new_manager e sid pg)) = 1"
  "requests (new_manager e sid pg) = []"
  "inflight (new_manager e sid pg) = []"
  "sessionId (new_manager e sid pg) = sid"
  "startTime (new_manager e sid pg) = now e"
  "isActive (new_manager e sid pg)"
  "inactivityTimeout (new_manager e sid pg) = Some (now e + 300000)"
  "heatmapData (new_manager e sid pg) = None"
  "scrollMilestones (new_manager e sid pg) = None"
  by (simp_all add: new_manager_def Let_def resetInactivityTimer_def events_trackEvent
      requests_trackEvent inflight_trackEvent sessionId_trackEvent startTime_trackEvent
      isActive_trackEvent heatmapData_trackEvent scrollMilestones_trackEvent)

subsection \<open>The envelope and the payload\<close>

text \<open>
  Claim C9. \<^verbatim>\<open>trackEvent(name, payload)\<close> appends one event to the queue. Every
  key of the payload has the payload's value in that event, also the keys
  \<^verbatim>\<open>event\<close>, \<^verbatim>\<open>session_id\<close>, \<^verbatim>\<open>timestamp\<close> and \<^verbatim>\<open>page_url\<close> of the envelope,
  because the payload is spread last. An envelope key that the payload lacks
  holds the event name, the session's id, the ISO string of the capture time and
  the page URL. The exported \<^verbatim>\<open>trackAnalyticsEvent\<close> does the same on the live
  instance. The payload is an object, so its keys are distinct.
\<close>

theorem trackEvent_payload_overrides_envelope:
  assumes "distinct (map fst eventData)"
  shows "events (trackEvent e eventName eventData s) =
           events s @ [make_event e s eventName eventData]
    \<and> trackAnalyticsEvent e eventName eventData (Some s) =
           Some (trackEvent e eventName eventData s)
    \<and> (\<forall>k v. map_of eventData k = Some v \<longrightarrow>
          get_prop (make_event e s eventName eventData) k = v)
    \<and> (map_of eventData ''event'' = None \<longrightarrow>
          get_prop (make_event e s eventName eventData) ''event'' = JStr eventName)
    \<and> (map_of eventData ''session_id'' = None \<longrightarrow>
          get_prop (make_event e s eventName eventData) ''session_id'' = JStr (sessionId s))
    \<and> (map_of eventData ''timestamp'' = None \<longrightarrow>
          get_prop (make_event e s eventName eventData) ''timestamp'' = JIso (now e))
    \<and> (map_of eventData ''page_url'' = None \<longrightarrow>
          get_prop (make_event e s eventName eventData) ''page_url'' = JStr (href e))"
  using assms
  by (simp add: events_trackEvent trackAnalyticsEvent_def get_prop_def make_event_def
        map_of_spread map_add_def)

text \<open>
  A payload whose \<^verbatim>\<open>session_id\<close> is \<^verbatim>\<open>"x"\<close>, recorded in the sample session: the
  event's session id is \<^verbatim>\<open>"x"\<close>, not the session's own; the three other envelope
  fields are the envelope's.
\<close>

theorem trackEvent_payload_overrides_envelope_witness:
  "distinct (map fst [(''session_id'', JStr ''x'')])
   \<and> map_of [(''session_id'', JStr ''x'')] ''session_id'' = Some (JStr ''x'')
   \<and> get_prop (make_event sample_env sample_manager ''custom'' [(''session_id'', JStr ''x'')])
        ''session_id'' = JStr ''x''
   \<and> sessionId sample_manager = ''session_0_abc''
   \<and> map_of [(''session_id'', JStr ''x'')] ''event'' = None
   \<and> get_prop (make_event sample_env sample_manager ''custom'' [(''session_id'', JStr ''x'')])
        ''event'' = JStr ''custom''
   \<and> map_of [(''session_id'', JStr ''x'')] ''timestamp'' = None
   \<and> get_prop (make_event sample_env sample_manager ''custom'' [(''session_id'', JStr ''x'')])
        ''timestamp'' = JIso 0
   \<and> map_of [(''session_id'', JStr ''x'')] ''page_url'' = None
   \<and> get_prop (make_event sample_env sample_manager ''custom'' [(''session_id'', JStr ''x'')])
        ''page_url'' = JStr ''/index.html''"
  using trackEvent_payload_overrides_envelope
          [of "[(''session_id'', JStr ''x'')]" sample_env "''custom''" sample_manager]
  by (simp add: sample_manager_def new_manager_fields sample_env_def)

subsection \<open>The batch threshold\<close>

text \<open>
  Claim C1. Recording events while the queue stays shorter than ten makes no
  \<^verbatim>\<open>fetch\<close>. The call of \<^verbatim>\<open>trackEvent\<close> that brings the queue to ten events makes
  exactly one, whose body holds all ten, and leaves its continuation waiting;
  when that request is answered with a 2xx status the queue is empty.
\<close>

theorem flush_when_queue_reaches_ten:
  "(length (events s) + length cs < 10 \<longrightarrow>
      requests (record_all cs s) = requests s \<and> inflight (record_all cs s) = inflight s)
   \<and> (length (events s) + length cs = 9 \<longrightarrow>
      requests (record_all (cs @ [(e, n, d)]) s) =
        requests s @ [\<lparr>req_session_id = sessionId s,
                        req_events = events (record_all (cs @ [(e, n, d)]) s),
                        req_user_info = user_info e\<rparr>]
      \<and> length (events (record_all (cs @ [(e, n, d)]) s)) = 10
      \<and> inflight (record_all (cs @ [(e, n, d)]) s) = inflight s @ [length (requests s)]
      \<and> events (resume (length (requests s)) (Response True)
                  (record_all (cs @ [(e, n, d)]) s)) = [])"
proof (intro conjI impI)
  assume "length (events s) + length cs < 10"
  then show "requests (record_all cs s) = requests s" "inflight (record_all cs s) = inflight s"
    using record_all_quiet by blast+
next
  assume nine: "length (events s) + length cs = 9"
  define s9 where "s9 = record_all cs s"
  have q: "requests s9 = requests s" "inflight s9 = inflight s"
    using nine record_all_quiet [of s cs] by (simp_all add: s9_def)
  have len: "length (events s9) = 9"
    using nine by (simp add: s9_def length_events_record_all)
  have sid: "sessionId s9 = sessionId s"
    by (simp add: s9_def sessionId_record_all)
  have r: "record_all (cs @ [(e, n, d)]) s = trackEvent e n d s9"
    by (simp add: record_all_append s9_def)
  show "requests (record_all (cs @ [(e, n, d)]) s) =
        requests s @ [\<lparr>req_session_id = sessionId s,
                        req_events = events (record_all (cs @ [(e, n, d)]) s),
                        req_user_info = user_info e\<rparr>]"
    by (simp add: r requests_trackEvent events_trackEvent len q sid)
  show "length (events (record_all (cs @ [(e, n, d)]) s)) = 10"
    by (simp add: r events_trackEvent len)
  show i: "inflight (record_all (cs @ [(e, n, d)]) s) = inflight s @ [length (requests s)]"
    by (simp add: r inflight_trackEvent len q)
  show "events (resume (length (requests s)) (Response True)
                  (record_all (cs @ [(e, n, d)]) s)) = []"
    by (simp add: resume_def i Let_def)
qed

text \<open>
  The sample session holds its \<^verbatim>\<open>page_load\<close> event. Eight clicks send nothing;
  the ninth makes the first request, with ten events; its success empties the
  queue.
\<close>

theorem flush_when_queue_reaches_ten_witness:
  "length (events sample_manager) + length (replicate 8 (sample_env, ''click'', [])) < 10
   \<and> requests (record_all (replicate 8 (sample_env, ''click'', [])) sample_manager) = []
   \<and> length (events sample_manager) + length (replicate 8 (sample_env, ''click'', [])) = 9
   \<and> length (requests (record_all (replicate 8 (sample_env, ''click'', [])
                                      @ [(sample_env, ''click'', [])]) sample_manager)) = 1
   \<and> length (req_events (hd (requests (record_all (replicate 8 (sample_env, ''click'', [])
                                      @ [(sample_env, ''click'', [])]) sample_manager)))) = 10
   \<and> events (resume 0 (Response True)
               (record_all (replicate 8 (sample_env, ''click'', [])
                              @ [(sample_env, ''click'', [])]) sample_manager)) = []"
  using flush_when_queue_reaches_ten
          [of sample_manager "replicate 8 (sample_env, ''click'', [])"
              sample_env "''click''" "[]"]
  by (simp add: sample_manager_def new_manager_fields)

subsection \<open>Scroll milestones\<close>













text \<open>
  Claim C10. When the document is exactly as high as the viewport and
  \<^verbatim>\<open>scrollY\<close> is 0, the division is 0 / 0: the percentage is \<^verbatim>\<open>NaN\<close>, which is
  not \<open>\<ge>\<close> any milestone, and \<^verbatim>\<open>trackScrollDepth\<close> returns with the manager as
  it was: no event, no mark, no request. Arithmetic and comparison on numbers do
  not throw, and the model of the function has no failing branch.
\<close>

theorem zero_height_scroll_is_silent:
  "scrollHeight = innerHeight \<longrightarrow>
     scrollPercent 0 scrollHeight innerHeight = NaN
     \<and> (\<forall>m. \<not> js_ge (scrollPercent 0 scrollHeight innerHeight) (Fin (of_nat m)))
     \<and> trackScrollDepth e 0 scrollHeight innerHeight s = s"
  by (simp add: scrollPercent_def trackScrollDepth_def milestones_def check_milestone_def)

theorem zero_height_scroll_is_silent_witness:
  "(800::int) = 800 \<and> scrollPercent 0 800 800 = NaN
   \<and> \<not> js_ge (scrollPercent 0 800 800) (Fin (of_nat 25))
   \<and> console (trackScrollDepth sample_env 0 800 800 sample_manager) = console sample_manager
   \<and> events (trackScrollDepth sample_env 0 800 800 sample_manager) = events sample_manager"
  using zero_height_scroll_is_silent [of 800 800 sample_env sample_manager]
  by simp

subsection \<open>Form fields\<close>

text \<open>
  Claim C8. For a target that is an \<^verbatim>\<open>input\<close> or a \<^verbatim>\<open>textarea\<close> the listener
  records one \<^verbatim>\<open>form_interaction\<close> event whose payload is the element's type, its
  name (its id when the name is empty) and whether its value is non-empty. The
  value itself does not reach the manager: two runs of the listener from the
  same state that differ only in the non-empty value of the field end in the
  same state, queue, requests and console included. Any other target leaves the
  manager as it was.
\<close>

theorem form_interaction_hides_value:
  "(v1 \<noteq> [] \<and> v2 \<noteq> [] \<longrightarrow>
      on_input e (el\<lparr>el_value := v1\<rparr>) s = on_input e (el\<lparr>el_value := v2\<rparr>) s)
   \<and> (matches_input_textarea el \<longrightarrow>
        events (on_input e el s) = events s @
          [make_event e s ''form_interaction''
             [(''element_type'', JStr (el_type el)),
              (''element_name'', JStr (if el_name el \<noteq> [] then el_name el else el_id el)),
              (''has_value'', JBool (el_value el \<noteq> []))]]
        \<and> console (on_input e el s) = console s @
          [AnalyticsEvent ''form_interaction''
             [(''element_type'', JStr (el_type el)),
              (''element_name'', JStr (if el_name el \<noteq> [] then el_name el else el_id el)),
              (''has_value'', JBool (el_value el \<noteq> []))]])
   \<and> (\<not> matches_input_textarea el \<longrightarrow> on_input e el s = s)"
  by (simp add: on_input_def matches_input_textarea_def events_trackEvent console_trackEvent)

text \<open>
  The password field with two different passwords: the two runs are equal, and
  the console line holds the type, the name and \<open>True\<close>. The drop-down is not
  recorded.
\<close>

theorem form_interaction_hides_value_witness:
  "''hunter2'' \<noteq> [] \<and> ''correct horse'' \<noteq> []
   \<and> on_input sample_env (sample_field\<lparr>el_value := ''hunter2''\<rparr>) sample_manager =
       on_input sample_env (sample_field\<lparr>el_value := ''correct horse''\<rparr>) sample_manager
   \<and> matches_input_textarea sample_field
   \<and> console (on_input sample_env sample_field sample_manager) =
       console sample_manager @
         [AnalyticsEvent ''form_interaction''
            [(''element_type'', JStr ''password''), (''element_name'', JStr ''pw''),
             (''has_value'', JBool True)]]
   \<and> \<not> matches_input_textarea sample_select
   \<and> on_input sample_env sample_select sample_manager = sample_manager"
  using form_interaction_hides_value
          [of "''hunter2''" "''correct horse''" sample_env sample_field sample_manager]
        form_interaction_hides_value
          [of "''hunter2''" "''correct horse''" sample_env sample_select sample_manager]
  by (auto simp add: sample_field_def sample_select_def matches_input_textarea_def)

subsection \<open>Inactivity timer\<close>











subsection \<open>Heatmap\<close>

























subsection \<open>The queue over a session\<close>

lemma sample_env_fields:
  "now sample_env = 0" "href sample_env = ''/index.html''"
  "gtag_defined sample_env = False" "user_info sample_env = []"
  by (simp_all add: sample_env_def)

lemma console_record_all:
  "console (record_all cs s) =
     console s @ map (\<lambda>c. AnalyticsEvent (fst (snd c)) (snd (snd c))) cs"
  by (induction cs s rule: record_all.induct) (simp_all add: console_trackEvent)

lemma startTime_record_all: "startTime (record_all cs s) = startTime s"
  by (induction cs s rule: record_all.induct) (simp_all add: startTime_trackEvent)

lemma make_event_sessionId:
  "sessionId s' = sessionId s \<Longrightarrow> make_event e s' n d = make_event e s n d"
  by (simp add: make_event_def)

lemma events_record_all:
  "events (record_all cs s) =
     events s @ map (\<lambda>c. make_event (fst c) s (fst (snd c)) (snd (snd c))) cs"
proof (induction cs s rule: record_all.induct)
  case (1 s)
  then show ?case by simp
next
  case (2 e n d cs s)
  have "make_event (fst c) (trackEvent e n d s) (fst (snd c)) (snd (snd c)) =
        make_event (fst c) s (fst (snd c)) (snd (snd c))" for c
    by (rule make_event_sessionId) (rule sessionId_trackEvent)
  with 2 show ?case by (simp add: events_trackEvent)
qed

text \<open>The sample sessions, field by field.\<close>

lemma sample_manager_fields:
  "events sample_manager =
     [[(''event'', JStr ''page_load''), (''session_id'', JStr ''session_0_abc''),
       (''timestamp'', JIso 0), (''page_url'', JStr ''/index.html''),
       (''url'', JStr ''/index.html''), (''referrer'', JStr ''direct''),
       (''user_agent'', JStr ''UA''), (''screen_resolution'', JStr ''1920x1080''),
       (''viewport'', JStr ''1280x720'')]]"
  "console sample_manager =
     [AnalyticsEvent ''page_load''
        [(''url'', JStr ''/index.html''), (''referrer'', JStr ''direct''),
         (''timestamp'', JIso 0), (''user_agent'', JStr ''UA''),
         (''screen_resolution'', JStr ''1920x1080''), (''viewport'', JStr ''1280x720'')],
      Initialized ''session_0_abc'']"
  "requests sample_manager = []" "inflight sample_manager = []"
  "sessionId sample_manager = ''session_0_abc''" "startTime sample_manager = 0"
  by (simp_all add: sample_manager_def new_manager_fields,
      simp_all add: new_manager_def Let_def events_trackEvent console_trackEvent
        resetInactivityTimer_def make_event_def spread_def sample_env_def sample_page_def)

lemma click_event:
  "make_event sample_env sample_manager ''click'' [] =
     [(''event'', JStr ''click''), (''session_id'', JStr ''session_0_abc''),
      (''timestamp'', JIso 0), (''page_url'', JStr ''/index.html'')]"
  by (simp add: make_event_def spread_def sample_manager_fields sample_env_def)

lemma full_queue_fields:
  "events full_queue =
     events sample_manager @ replicate 9 (make_event sample_env sample_manager ''click'' [])"
  "requests full_queue =
     [\<lparr>req_session_id = ''session_0_abc'', req_events = events full_queue,
       req_user_info = []\<rparr>]"
  "inflight full_queue = [0]"
  "sessionId full_queue = ''session_0_abc''"
  "startTime full_queue = 0"
  "console full_queue = console sample_manager @ replicate 9 (AnalyticsEvent ''click'' [])"
proof -
  show "events full_queue =
     events sample_manager @ replicate 9 (make_event sample_env sample_manager ''click'' [])"
    by (simp add: full_queue_def events_record_all clicks_def)
  have "clicks 9 = clicks 8 @ [(sample_env, ''click'', [])]"
    by (simp add: clicks_def eval_nat_numeral replicate_append_same)
  then have split:
    "full_queue = trackEvent sample_env ''click'' [] (record_all (clicks 8) sample_manager)"
    by (simp add: full_queue_def record_all_append)
  have q: "requests (record_all (clicks 8) sample_manager) = []"
          "inflight (record_all (clicks 8) sample_manager) = []"
    using record_all_quiet [of sample_manager "clicks 8"]
    by (simp_all add: sample_manager_fields clicks_def)
  have l: "length (events (record_all (clicks 8) sample_manager)) = 9"
    by (simp add: length_events_record_all sample_manager_fields clicks_def)
  show "requests full_queue =
     [\<lparr>req_session_id = ''session_0_abc'', req_events = events full_queue,
       req_user_info = []\<rparr>]"
    by (simp add: split requests_trackEvent l q events_trackEvent sessionId_record_all
          sample_manager_fields sample_env_def)
  show "inflight full_queue = [0]"
    by (simp add: split inflight_trackEvent l q)
  show "sessionId full_queue = ''session_0_abc''"
    by (simp add: full_queue_def sessionId_record_all sample_manager_fields)
  show "startTime full_queue = 0"
    by (simp add: full_queue_def startTime_record_all sample_manager_fields)
  show "console full_queue = console sample_manager @ replicate 9 (AnalyticsEvent ''click'' [])"
    by (simp add: full_queue_def console_record_all clicks_def)
qed

lemma flushed_setup:
  "events (resume 0 (Response True) full_queue) = []"
  "console (resume 0 (Response True) full_queue) = console full_queue @ [Sent 10]"
  "requests (resume 0 (Response True) full_queue) = requests full_queue"
  "inflight (resume 0 (Response True) full_queue) = []"
  "sessionId (resume 0 (Response True) full_queue) = ''session_0_abc''"
  "startTime (resume 0 (Response True) full_queue) = 0"
  by (simp_all add: resume_def Let_def full_queue_fields sample_manager_fields)

lemma flushed_session_fields:
  "length (events flushed_session) = 2"
  "events_recorded flushed_session = 12"
  "sections_recorded flushed_session = 0"
  "sections_visited (events flushed_session) = 0"
  "startTime flushed_session = 0"
  "length (requests flushed_session) = 1"
  by (simp_all add: flushed_session_def length_events_record_all flushed_setup clicks_def
      events_recorded_def console_record_all full_queue_fields sample_manager_fields
      is_recorded_def sections_recorded_def startTime_record_all sections_visited_def
      events_record_all make_event_def spread_def get_prop_def
      record_all_quiet)

lemma browsing_session_fields:
  "length (events browsing_session) = 20"
  "sections_visited (events browsing_session) = 2"
  "startTime browsing_session = 0"
  "events_recorded browsing_session = 20"
  "sections_recorded browsing_session = 2"
  by (simp_all add: browsing_session_def browsing_calls_def length_events_record_all
      sample_manager_fields clicks_def startTime_record_all sections_visited_def
      events_record_all make_event_def spread_def get_prop_def events_recorded_def
      console_record_all is_recorded_def sections_recorded_def)

lemma nav_event_made:
  "make_event sample_env full_queue ''navigation'' [(''target_section'', JStr ''#about'')] =
     nav_event"
  by (simp add: make_event_def spread_def full_queue_fields sample_env_def nav_event_def)

subsection \<open>Engagement score\<close>

text \<open>
  While nothing has been delivered the queue is the session's history, and the
  score is the one of the specification's example: five minutes into the
  browsing session, with twenty events recorded, two of them navigation to
  different sections, 50 + 40 + 40 = 130.
\<close>

lemma engagement_score_example:
  "events_recorded browsing_session = 20
   \<and> sections_recorded browsing_session = 2
   \<and> minutes_elapsed (sample_env\<lparr>now := 300000\<rparr>) browsing_session = 5
   \<and> session_score (sample_env\<lparr>now := 300000\<rparr>) browsing_session = Fin 130
   \<and> calculateEngagementScore (sample_env\<lparr>now := 300000\<rparr>) browsing_session = Fin 130"
  by (simp add: session_score_def score_formula_def minutes_elapsed_def
        browsing_session_fields calculateEngagementScore_def Let_def floor_rat_numeral)

text \<open>
  Claim C5, evaluated where it fails. In the session whose first ten events
  were delivered and that recorded two more, twelve events have been recorded
  and no time has passed: the formula over the events of the session gives 24,
  and \<^verbatim>\<open>calculateEngagementScore\<close> returns 4, the score of the two events left
  in \<^verbatim>\<open>this.events\<close> after the successful flush replaced it by the empty array.
\<close>

theorem score_drops_after_flush:
  "events_recorded flushed_session = 12
   \<and> length (events flushed_session) = 2
   \<and> sections_recorded flushed_session = 0
   \<and> minutes_elapsed sample_env flushed_session = 0
   \<and> session_score sample_env flushed_session = Fin 24
   \<and> calculateEngagementScore sample_env flushed_session = Fin 4
   \<and> calculateEngagementScore sample_env flushed_session
       \<noteq> session_score sample_env flushed_session"
  by (simp add: session_score_def score_formula_def minutes_elapsed_def flushed_session_fields
        calculateEngagementScore_def Let_def sample_env_def floor_rat_numeral)

subsection \<open>Unload\<close>

text \<open>
  Claim C7, evaluated where it fails. The session whose first ten events were
  delivered and that recorded two more is unloaded after 60 s. The
  \<^verbatim>\<open>page_unload\<close> event carries the time since the start and, as
  \<^verbatim>\<open>total_events\<close>, 2: the length of the queue before the event itself is
  pushed, whereas twelve events had been recorded. The handler then sends the
  queue, now of three events, in a second request.
\<close>

theorem unload_reports_pending_count_only:
  "events_recorded flushed_session = 12
   \<and> last (console (on_beforeunload (sample_env\<lparr>now := 60000\<rparr>) flushed_session)) =
       AnalyticsEvent ''page_unload''
         [(''total_time_spent'', JNum (Fin 60000)), (''total_events'', JNum (Fin 2))]
   \<and> length (requests (on_beforeunload (sample_env\<lparr>now := 60000\<rparr>) flushed_session)) = 2
   \<and> req_events (last (requests
         (on_beforeunload (sample_env\<lparr>now := 60000\<rparr>) flushed_session))) =
       events (on_beforeunload (sample_env\<lparr>now := 60000\<rparr>) flushed_session)
   \<and> length (events (on_beforeunload (sample_env\<lparr>now := 60000\<rparr>) flushed_session)) = 3"
  by (simp add: on_beforeunload_def flushed_session_fields sendAnalytics_def events_trackEvent
        console_trackEvent requests_trackEvent)

subsection \<open>Failed flushes\<close>

text \<open>
  Claim C3, evaluated where it fails. The tenth event of the session makes the
  first request, with ten events; the next event, recorded before any answer
  arrives, makes a second request with all eleven. The first request succeeds
  and the queue is replaced by the empty array; the second request fails. The
  queue no longer holds any of the eleven events that were in it when the failed
  flush was made, and the eleventh event was in no request that succeeded.
\<close>

theorem event_lost_by_overlapping_flushes:
  "events (trackEvent sample_env ''navigation'' [(''target_section'', JStr ''#about'')]
             full_queue) = events full_queue @ [nav_event]
   \<and> length (requests overlapped) = 2
   \<and> req_events (requests overlapped ! 0) = events full_queue
   \<and> req_events (requests overlapped ! 1) = events full_queue @ [nav_event]
   \<and> length (events full_queue) = 10
   \<and> nav_event \<notin> set (events full_queue)
   \<and> inflight overlapped = []
   \<and> events overlapped = []"
proof -
  define s11 where
    "s11 = trackEvent sample_env ''navigation'' [(''target_section'', JStr ''#about'')]
             full_queue"
  have ev: "events s11 = events full_queue @ [nav_event]"
    by (simp add: s11_def events_trackEvent nav_event_made)
  have len: "length (events full_queue) = 10"
    by (simp add: full_queue_fields sample_manager_fields)
  have rq: "requests s11 =
      [\<lparr>req_session_id = ''session_0_abc'', req_events = events full_queue,
        req_user_info = []\<rparr>,
       \<lparr>req_session_id = ''session_0_abc'', req_events = events full_queue @ [nav_event],
         req_user_info = []\<rparr>]"
    by (simp add: s11_def requests_trackEvent len full_queue_fields(2,4) nav_event_made
          sample_env_fields)
  have fl: "inflight s11 = [0, 1]"
    by (simp add: s11_def inflight_trackEvent len full_queue_fields(2,3))
  have ov: "overlapped = resume 1 (Response False) (resume 0 (Response True) s11)"
    by (simp add: overlapped_def s11_def)
  have fresh: "nav_event \<notin> set (events full_queue)"
    by (simp add: full_queue_fields(1) sample_manager_fields click_event nav_event_def)
  show ?thesis
    using ev len fresh
    by (simp add: ov s11_def [symmetric] resume_def Let_def rq fl)
qed

text \<open>
  What does hold of a failed flush: a response that is not 2xx and a rejected
  \<^verbatim>\<open>fetch\<close> leave the queue and the requests as they are, and the next flush
  sends the queue with every event recorded since.
\<close>

theorem failed_flush_keeps_queue:
  "out \<noteq> Response True \<longrightarrow>
     events (resume i out s) = events s
     \<and> requests (resume i out s) = requests s
     \<and> (events s \<noteq> [] \<longrightarrow>
          req_events (last (requests (sendAnalytics e (record_all cs (resume i out s))))) =
            events s @ map (\<lambda>c. make_event (fst c) s (fst (snd c)) (snd (snd c))) cs)"
proof
  assume out: "out \<noteq> Response True"
  then have ev: "events (resume i out s) = events s"
    and rq: "requests (resume i out s) = requests s"
    and sid: "sessionId (resume i out s) = sessionId s"
    by (cases out; simp add: resume_def Let_def)+
  have mk: "make_event (fst c) (resume i out s) (fst (snd c)) (snd (snd c)) =
            make_event (fst c) s (fst (snd c)) (snd (snd c))" for c
    by (rule make_event_sessionId) (rule sid)
  show "events (resume i out s) = events s
     \<and> requests (resume i out s) = requests s
     \<and> (events s \<noteq> [] \<longrightarrow>
          req_events (last (requests (sendAnalytics e (record_all cs (resume i out s))))) =
            events s @ map (\<lambda>c. make_event (fst c) s (fst (snd c)) (snd (snd c))) cs)"
    by (simp add: ev rq sendAnalytics_def events_record_all mk)
qed

theorem failed_flush_keeps_queue_witness:
  "Response False \<noteq> Response True
   \<and> events (resume 0 (Response False) full_queue) = events full_queue
   \<and> events full_queue \<noteq> []
   \<and> req_events (last (requests (sendAnalytics sample_env
        (record_all (clicks 1) (resume 0 (Response False) full_queue))))) =
       events full_queue @ [make_event sample_env full_queue ''click'' []]"
  using failed_flush_keeps_queue [of "Response False" 0 full_queue sample_env "clicks 1"]
  by (simp add: clicks_def full_queue_fields(1))

end
